theory Spec2Isabelle
  imports Complex_Main "HOL-Library.Word"
begin

section \<open>Go values as the assert package sees them\<close>

text \<open>
  The package (\<^verbatim>\<open>assert.go\<close>, the version with \<^verbatim>\<open>msgAndArgs ...any\<close> and
  \<^verbatim>\<open>ErrorAs\<close>) inspects its arguments through type assertions, type switches
  and package \<^verbatim>\<open>reflect\<close>. A value boxed in an interface is therefore modelled as
  a dynamic type together with a value, and the nil interface as \<open>None\<close>.
\<close>

type_synonym addr = nat

text \<open>Go types, as far as type identity, kinds and method sets need them.\<close>

datatype gtype =
    TBool | TInt | TInt32 | TInt64 | TUint8 | TFloat64 | TString
  | TArray nat gtype
  | TChan gtype
  | TFunc "gtype list" "gtype list"
  | TInterface string
  | TMap gtype gtype
  | TPointer gtype
  | TSlice gtype
  | TStruct "(string \<times> gtype) list"
  | TNamed string gtype

text \<open>\<^verbatim>\<open>reflect.Kind\<close>, restricted to the kinds of \<open>gtype\<close>.\<close>

datatype kind =
    KBool | KInt | KInt32 | KInt64 | KUint8 | KFloat64 | KString
  | KArray | KChan | KFunc | KInterface | KMap | KPointer | KSlice | KStruct

fun kindOf :: "gtype \<Rightarrow> kind" where
  "kindOf TBool = KBool"
| "kindOf TInt = KInt"
| "kindOf TInt32 = KInt32"
| "kindOf TInt64 = KInt64"
| "kindOf TUint8 = KUint8"
| "kindOf TFloat64 = KFloat64"
| "kindOf TString = KString"
| "kindOf (TArray n t) = KArray"
| "kindOf (TChan t) = KChan"
| "kindOf (TFunc ps rs) = KFunc"
| "kindOf (TInterface n) = KInterface"
| "kindOf (TMap k v) = KMap"
| "kindOf (TPointer t) = KPointer"
| "kindOf (TSlice t) = KSlice"
| "kindOf (TStruct fs) = KStruct"
| "kindOf (TNamed n u) = kindOf u"

text \<open>
  A \<^verbatim>\<open>float64\<close> up to Go's \<^verbatim>\<open>==\<close>: the two zeros are one value, and
  \<open>NaN\<close> is the value that \<^verbatim>\<open>==\<close> never finds equal to anything.
\<close>

datatype float64 = NaN | NegInf | PosInf | Finite rat

fun floatEq :: "float64 \<Rightarrow> float64 \<Rightarrow> bool" where
  "floatEq NaN y = False"
| "floatEq x NaN = False"
| "floatEq x y = (x = y)"

text \<open>
  Values. References carry the address they point to, since \<^verbatim>\<open>reflect.DeepEqual\<close>
  compares addresses before contents; \<open>None\<close> is the nil reference. The pointee of
  a pointer, the elements of a slice and the entries of a map are held in the value
  itself, so values are finite trees (no cyclic structures). \<open>VRType\<close> is the type
  descriptor behind a \<^verbatim>\<open>reflect.Type\<close>.
\<close>

datatype gvalue =
    VBool bool
  | VInt int
  | VFloat float64
  | VString string
  | VArray "gvalue list"
  | VChan "addr option"
  | VFunc "addr option"
  | VIface "(gtype \<times> gvalue) option"
  | VMap "(addr \<times> (gvalue \<times> gvalue) list) option"
  | VPointer "(addr \<times> gvalue) option"
  | VSlice "(addr \<times> gvalue list) option"
  | VStruct "gvalue list"
  | VRType gtype

text \<open>A value of static type \<^verbatim>\<open>any\<close>, \<^verbatim>\<open>error\<close> or a type parameter converted to \<^verbatim>\<open>any\<close>.\<close>

type_synonym iface = "(gtype \<times> gvalue) option"

abbreviation rtypeT :: gtype where
  "rtypeT \<equiv> TPointer (TNamed ''reflect.rtype'' (TStruct []))"

abbreviation bytesT :: gtype where
  "bytesT \<equiv> TSlice TUint8"

abbreviation str :: "string \<Rightarrow> iface" where
  "str s \<equiv> Some (TString, VString s)"

text \<open>A run-time panic unwinding out of the call.\<close>

datatype panic =
    NilDereference
  | InterfaceConversion
  | NotAnError
  | LibraryPanic string

subsection \<open>The reporting handle\<close>

text \<open>
  \<^verbatim>\<open>TestingT\<close> is an interface with four methods; \<^verbatim>\<open>helperT\<close> is probed by a
  type assertion. The handle is modelled by what the package can observe and cause: whether
  the handle also implements \<^verbatim>\<open>Helper()\<close>, and the sequence of calls made on it.
  After a \<^verbatim>\<open>Fatalf\<close> the package executes nothing more on any path, so the log
  is the same whether or not the handle's \<^verbatim>\<open>Fatalf\<close> returns.
\<close>

datatype call =
    Helper
  | Error "iface list"
  | Errorf string "iface list"
  | Fatal "iface list"
  | Fatalf string "iface list"

record TestingT =
  implementsHelper :: bool
  calls :: "call list"

fun isReport :: "call \<Rightarrow> bool" where
  "isReport Helper = False"
| "isReport c = True"

fun isFatal :: "call \<Rightarrow> bool" where
  "isFatal (Fatal args) = True"
| "isFatal (Fatalf f args) = True"
| "isFatal c = False"

definition reports :: "TestingT \<Rightarrow> call list" where
  "reports t = filter isReport (calls t)"

definition invoke :: "call \<Rightarrow> TestingT \<Rightarrow> TestingT" where
  "invoke c t = t\<lparr>calls := calls t @ [c]\<rparr>"

text \<open>\<^verbatim>\<open>if ht, ok := t.(helperT); ok { ht.Helper() }\<close>\<close>

definition markHelper :: "TestingT \<Rightarrow> TestingT" where
  "markHelper t = (if implementsHelper t then invoke Helper t else t)"

subsection \<open>What the package takes from outside\<close>

text \<open>
  The methods of the caller's types and the standard-library functions whose results the
  package only passes on are parameters of the model:
  \<^item> \<open>equalMethod D\<close>: the method \<^verbatim>\<open>Equal(P) bool\<close> of dynamic type \<open>D\<close>, if it has
    one, as its parameter type \<open>P\<close> and its behaviour on receiver and argument;
  \<^item> \<open>errorMethod D\<close>: the method \<^verbatim>\<open>Error() string\<close> of \<open>D\<close>, if \<open>D\<close> implements \<^verbatim>\<open>error\<close>;
  \<^item> \<open>fmtFprintf\<close>, \<open>fmtFprint\<close>: what \<^verbatim>\<open>fmt.Fprintf\<close> and \<^verbatim>\<open>fmt.Fprint\<close> write;
  \<^item> \<open>regexpMatchString pattern s\<close>: \<^verbatim>\<open>regexp.MatchString\<close>, \<open>Inl\<close> the text of the
    compile error;
  \<^item> \<open>errorsIs\<close>, \<open>errorsAs\<close>: \<^verbatim>\<open>errors.Is\<close> and \<^verbatim>\<open>errors.As\<close> (which panics on a
    target that is not a non-nil pointer to an interface or error type);
  \<^item> \<open>reflectNew w\<close>: \<^verbatim>\<open>reflect.New(w).Interface()\<close>.
\<close>

record host =
  equalMethod :: "gtype \<Rightarrow> (gtype \<times> (gvalue \<Rightarrow> iface \<Rightarrow> bool)) option"
  errorMethod :: "gtype \<Rightarrow> (gvalue \<Rightarrow> string) option"
  fmtFprintf :: "string \<Rightarrow> iface list \<Rightarrow> string"
  fmtFprint :: "iface list \<Rightarrow> string"
  regexpMatchString :: "string \<Rightarrow> string \<Rightarrow> string + bool"
  errorsIs :: "iface \<Rightarrow> iface \<Rightarrow> bool"
  errorsAs :: "iface \<Rightarrow> iface \<Rightarrow> panic + bool"
  reflectNew :: "gtype \<Rightarrow> iface"

text \<open>
  Go attaches methods to defined types and pointers to them, and to struct types through
  embedded fields; every other type literal (\<^verbatim>\<open>[]byte\<close>, \<^verbatim>\<open>map[string]int\<close>, ...)
  has an empty method set.
\<close>

fun hasMethodSet :: "gtype \<Rightarrow> bool" where
  "hasMethodSet (TNamed n u) = True"
| "hasMethodSet (TStruct fs) = True"
| "hasMethodSet (TPointer (TNamed n u)) = True"
| "hasMethodSet (TPointer (TStruct fs)) = True"
| "hasMethodSet t = False"

definition lookupEqual :: "host \<Rightarrow> gtype \<Rightarrow> (gtype \<times> (gvalue \<Rightarrow> iface \<Rightarrow> bool)) option" where
  "lookupEqual H D = (if hasMethodSet D then equalMethod H D else None)"

definition lookupError :: "host \<Rightarrow> gtype \<Rightarrow> (gvalue \<Rightarrow> string) option" where
  "lookupError H D = (if hasMethodSet D then errorMethod H D else None)"

section \<open>Nilness: \<^verbatim>\<open>isNil\<close>\<close>

text \<open>\<^verbatim>\<open>reflect.Value.IsNil\<close> on a value of one of the six kinds the switch lets through.\<close>

fun valueIsNil :: "gvalue \<Rightarrow> bool" where
  "valueIsNil (VChan a) = (a = None)"
| "valueIsNil (VFunc a) = (a = None)"
| "valueIsNil (VIface i) = (i = None)"
| "valueIsNil (VMap m) = (m = None)"
| "valueIsNil (VPointer p) = (p = None)"
| "valueIsNil (VSlice s) = (s = None)"
| "valueIsNil v = False"

text \<open>
  \<^verbatim>\<open>
  func isNil(v any) bool {
      if v == nil { return true }
      rv := reflect.ValueOf(v)
      switch rv.Kind() {
      case reflect.Chan, reflect.Func, reflect.Interface, reflect.Map, reflect.Pointer, reflect.Slice:
          return rv.IsNil()
      }
      return false
  }
  \<close>
\<close>

definition isNil :: "iface \<Rightarrow> bool" where
  "isNil v =
     (case v of
        None \<Rightarrow> True
      | Some (D, x) \<Rightarrow>
          if kindOf D \<in> {KChan, KFunc, KInterface, KMap, KPointer, KSlice}
          then valueIsNil x else False)"

section \<open>Host semantics the comparator relies on\<close>

subsection \<open>Go's \<^verbatim>\<open>==\<close> on comparable values\<close>

text \<open>
  Used for map lookups. Pointers and channels compare by address, interfaces by dynamic
  type and value, structs and arrays by their parts. Slices, maps and functions are not
  comparable and are never map keys.
\<close>

fun goEq :: "gvalue \<Rightarrow> gvalue \<Rightarrow> bool"
  and goEqList :: "gvalue list \<Rightarrow> gvalue list \<Rightarrow> bool" where
  "goEq (VBool a) w = (case w of VBool b \<Rightarrow> a = b | _ \<Rightarrow> False)"
| "goEq (VInt a) w = (case w of VInt b \<Rightarrow> a = b | _ \<Rightarrow> False)"
| "goEq (VFloat a) w = (case w of VFloat b \<Rightarrow> floatEq a b | _ \<Rightarrow> False)"
| "goEq (VString a) w = (case w of VString b \<Rightarrow> a = b | _ \<Rightarrow> False)"
| "goEq (VArray xs) w = (case w of VArray ys \<Rightarrow> goEqList xs ys | _ \<Rightarrow> False)"
| "goEq (VStruct xs) w = (case w of VStruct ys \<Rightarrow> goEqList xs ys | _ \<Rightarrow> False)"
| "goEq (VChan a) w = (case w of VChan b \<Rightarrow> a = b | _ \<Rightarrow> False)"
| "goEq (VPointer p) w =
     (case w of VPointer q \<Rightarrow> map_option fst p = map_option fst q | _ \<Rightarrow> False)"
| "goEq (VRType a) w = (case w of VRType b \<Rightarrow> a = b | _ \<Rightarrow> False)"
| "goEq (VIface None) w = (case w of VIface None \<Rightarrow> True | _ \<Rightarrow> False)"
| "goEq (VIface (Some (t1, x))) w =
     (case w of VIface (Some (t2, y)) \<Rightarrow> t1 = t2 \<and> goEq x y | _ \<Rightarrow> False)"
| "goEq (VFunc a) w = False"
| "goEq (VMap m) w = False"
| "goEq (VSlice s) w = False"
| "goEqList [] ys = (ys = [])"
| "goEqList (x # xs) ys =
     (case ys of [] \<Rightarrow> False | y # ys' \<Rightarrow> goEq x y \<and> goEqList xs ys')"

text \<open>\<^verbatim>\<open>Value.MapIndex\<close>: the entry stored under a key, if there is one.\<close>

fun mapIndex :: "(gvalue \<times> gvalue) list \<Rightarrow> gvalue \<Rightarrow> gvalue option" where
  "mapIndex [] k = None"
| "mapIndex ((k', v) # rest) k = (if goEq k' k then Some v else mapIndex rest k)"

subsection \<open>\<^verbatim>\<open>reflect.DeepEqual\<close>\<close>

text \<open>
  \<^verbatim>\<open>deepValueEqual\<close> of package reflect, kind by kind, for two values of one type:
  \<^item> arrays and structs: part by part;
  \<^item> slices: both nil or both non-nil, the same length, and then the same first element
    address or deeply equal elements (the library's shortcut for \<^verbatim>\<open>[]byte\<close> compares
    the bytes, which is the same thing);
  \<^item> interfaces: both nil, or the same dynamic type and deeply equal contents;
  \<^item> pointers: the same address, or deeply equal pointees;
  \<^item> maps: both nil or both non-nil, the same length, and then the same map or, for
    every key of the first, an entry of the second under that key that is deeply equal;
  \<^item> functions: equal only when both are nil;
  \<^item> everything else: \<^verbatim>\<open>==\<close>.
\<close>

fun deepValueEqual :: "gvalue \<Rightarrow> gvalue \<Rightarrow> bool"
  and deepValueEqualList :: "gvalue list \<Rightarrow> gvalue list \<Rightarrow> bool"
  and deepMapRange :: "(gvalue \<times> gvalue) list \<Rightarrow> (gvalue \<times> gvalue) list \<Rightarrow> bool" where
  "deepValueEqual (VArray xs) w =
     (case w of VArray ys \<Rightarrow> deepValueEqualList xs ys | _ \<Rightarrow> False)"
| "deepValueEqual (VSlice None) w = (case w of VSlice None \<Rightarrow> True | _ \<Rightarrow> False)"
| "deepValueEqual (VSlice (Some (a, xs))) w =
     (case w of
        VSlice (Some (b, ys)) \<Rightarrow>
          if length xs \<noteq> length ys then False
          else if a = b then True
          else deepValueEqualList xs ys
      | _ \<Rightarrow> False)"
| "deepValueEqual (VIface None) w = (case w of VIface None \<Rightarrow> True | _ \<Rightarrow> False)"
| "deepValueEqual (VIface (Some (t1, x))) w =
     (case w of
        VIface (Some (t2, y)) \<Rightarrow> if t1 \<noteq> t2 then False else deepValueEqual x y
      | _ \<Rightarrow> False)"
| "deepValueEqual (VPointer None) w = (case w of VPointer None \<Rightarrow> True | _ \<Rightarrow> False)"
| "deepValueEqual (VPointer (Some (a, x))) w =
     (case w of
        VPointer (Some (b, y)) \<Rightarrow> if a = b then True else deepValueEqual x y
      | _ \<Rightarrow> False)"
| "deepValueEqual (VStruct xs) w =
     (case w of VStruct ys \<Rightarrow> deepValueEqualList xs ys | _ \<Rightarrow> False)"
| "deepValueEqual (VMap None) w = (case w of VMap None \<Rightarrow> True | _ \<Rightarrow> False)"
| "deepValueEqual (VMap (Some (a, kvs1))) w =
     (case w of
        VMap (Some (b, kvs2)) \<Rightarrow>
          if length kvs1 \<noteq> length kvs2 then False
          else if a = b then True
          else deepMapRange kvs1 kvs2
      | _ \<Rightarrow> False)"
| "deepValueEqual (VFunc a) w =
     (case w of VFunc b \<Rightarrow> if a = None \<and> b = None then True else False | _ \<Rightarrow> False)"
| "deepValueEqual (VInt a) w = (case w of VInt b \<Rightarrow> a = b | _ \<Rightarrow> False)"
| "deepValueEqual (VString a) w = (case w of VString b \<Rightarrow> a = b | _ \<Rightarrow> False)"
| "deepValueEqual (VBool a) w = (case w of VBool b \<Rightarrow> a = b | _ \<Rightarrow> False)"
| "deepValueEqual (VFloat a) w = (case w of VFloat b \<Rightarrow> floatEq a b | _ \<Rightarrow> False)"
| "deepValueEqual (VChan a) w = (case w of VChan b \<Rightarrow> a = b | _ \<Rightarrow> False)"
| "deepValueEqual (VRType a) w = (case w of VRType b \<Rightarrow> a = b | _ \<Rightarrow> False)"
| "deepValueEqualList [] ys = (ys = [])"
| "deepValueEqualList (x # xs) ys =
     (case ys of [] \<Rightarrow> False | y # ys' \<Rightarrow> deepValueEqual x y \<and> deepValueEqualList xs ys')"
| "deepMapRange [] kvs2 = True"
| "deepMapRange ((k, x) # rest) kvs2 =
     (case mapIndex kvs2 k of
        None \<Rightarrow> False
      | Some y \<Rightarrow> deepValueEqual x y \<and> deepMapRange rest kvs2)"

text \<open>
  \<^verbatim>\<open>
  func DeepEqual(x, y any) bool {
      if x == nil || y == nil { return x == y }
      v1 := ValueOf(x); v2 := ValueOf(y)
      if v1.Type() != v2.Type() { return false }
      return deepValueEqual(v1, v2, make(map[visit]bool))
  }
  \<close>
\<close>

fun DeepEqual :: "iface \<Rightarrow> iface \<Rightarrow> bool" where
  "DeepEqual None None = True"
| "DeepEqual None (Some y) = False"
| "DeepEqual (Some x) None = False"
| "DeepEqual (Some (t1, x)) (Some (t2, y)) = (if t1 \<noteq> t2 then False else deepValueEqual x y)"

subsection \<open>\<^verbatim>\<open>bytes.Equal\<close> and \<^verbatim>\<open>strings.Contains\<close>\<close>

fun sliceElems :: "gvalue \<Rightarrow> gvalue list" where
  "sliceElems (VSlice (Some (a, xs))) = xs"
| "sliceElems v = []"

text \<open>
  \<^verbatim>\<open>bytes.Equal\<close> reports whether its arguments have the same length and contain the
  same bytes; a nil argument is equivalent to an empty slice.
\<close>

definition bytesEqual :: "gvalue \<Rightarrow> gvalue \<Rightarrow> bool" where
  "bytesEqual a b = (sliceElems a = sliceElems b)"

fun hasPrefix :: "string \<Rightarrow> string \<Rightarrow> bool" where
  "hasPrefix s [] = True"
| "hasPrefix [] (c # cs) = False"
| "hasPrefix (d # ds) (c # cs) = (d = c \<and> hasPrefix ds cs)"

fun stringsContains :: "string \<Rightarrow> string \<Rightarrow> bool" where
  "stringsContains [] substr = hasPrefix [] substr"
| "stringsContains (c # cs) substr = (hasPrefix (c # cs) substr \<or> stringsContains cs substr)"

section \<open>The comparator: \<^verbatim>\<open>isEqual\<close>\<close>

text \<open>\<^verbatim>\<open>any(got).(equaler[T])\<close>: the receiver's \<^verbatim>\<open>Equal\<close>, if its parameter type is \<open>T\<close>.\<close>

definition assertEqualer :: "host \<Rightarrow> gtype \<Rightarrow> iface \<Rightarrow> (iface \<Rightarrow> bool) option" where
  "assertEqualer H T v =
     (case v of
        None \<Rightarrow> None
      | Some (D, x) \<Rightarrow>
          (case lookupEqual H D of
             None \<Rightarrow> None
           | Some (P, f) \<Rightarrow> if P = T then Some (f x) else None))"

text \<open>\<^verbatim>\<open>any(v).([]byte)\<close>\<close>

definition assertBytes :: "iface \<Rightarrow> gvalue option" where
  "assertBytes v =
     (case v of
        None \<Rightarrow> None
      | Some (D, x) \<Rightarrow> if D = bytesT then Some x else None)"

text \<open>
  \<^verbatim>\<open>
  func isEqual[T any](got, want T) bool {
      if isNil(got) && isNil(want) { return true }
      if equalable, ok := any(got).(equaler[T]); ok { return equalable.Equal(want) }
      // Special case for byte slices.
      if aBytes, ok := any(got).([]byte); ok {
          bBytes := any(want).([]byte)
          return bytes.Equal(aBytes, bBytes)
      }
      // Fallback to reflective comparison.
      return reflect.DeepEqual(got, want)
  }
  \<close>
  \<open>T\<close> is the type argument; \<open>got\<close> and \<open>want\<close> are the arguments converted to
  \<^verbatim>\<open>any\<close>. When \<open>T\<close> is not an interface type both have dynamic type \<open>T\<close>. The
  one-result type assertion on \<open>want\<close> panics when it fails.
\<close>

definition isEqual :: "host \<Rightarrow> gtype \<Rightarrow> iface \<Rightarrow> iface \<Rightarrow> panic + bool" where
  "isEqual H T got want =
     (if isNil got \<and> isNil want then Inr True
      else case assertEqualer H T got of
        Some equalable \<Rightarrow> Inr (equalable want)
      | None \<Rightarrow>
          (case assertBytes got of
             Some aBytes \<Rightarrow>
               (case assertBytes want of
                  None \<Rightarrow> Inl InterfaceConversion
                | Some bBytes \<Rightarrow> Inr (bytesEqual aBytes bBytes))
           | None \<Rightarrow> Inr (DeepEqual got want)))"

section \<open>The message suffix: \<^verbatim>\<open>formatMsg\<close>\<close>

text \<open>\<^verbatim>\<open>v.(string)\<close>\<close>

fun assertString :: "iface \<Rightarrow> string option" where
  "assertString (Some (D, VString s)) = (if D = TString then Some s else None)"
| "assertString v = None"

text \<open>
  \<^verbatim>\<open>
  func formatMsg(msgAndArgs ...any) string {
      var b strings.Builder
      switch len(msgAndArgs) {
      case 0:
      case 1:
          b.WriteString(" ")
          if s, ok := msgAndArgs[0].(string); ok { b.WriteString(s) }
          else { fmt.Fprint(&b, msgAndArgs[0]) }
      default:
          b.WriteString(" ")
          if s, ok := msgAndArgs[0].(string); ok { fmt.Fprintf(&b, s, msgAndArgs[1:]...) }
          else { fmt.Fprint(&b, msgAndArgs...) }
      }
      return b.String()
  }
  \<close>
\<close>

fun formatMsg :: "host \<Rightarrow> iface list \<Rightarrow> string" where
  "formatMsg H [] = []"
| "formatMsg H [a] =
     '' '' @ (case assertString a of
                Some s \<Rightarrow> s
              | None \<Rightarrow> fmtFprint H [a])"
| "formatMsg H (a # b # rest) =
     '' '' @ (case assertString a of
                Some s \<Rightarrow> fmtFprintf H s (b # rest)
              | None \<Rightarrow> fmtFprint H (a # b # rest))"

section \<open>The assertions\<close>

text \<open>
  Every assertion takes the handle and returns it with the calls it made appended, or the
  panic that unwound out of it. The arguments of a report are recorded as passed; turning
  format and operands into text is the handle's work.
\<close>

text \<open>
  \<^verbatim>\<open>
  func Equal[T any](t TestingT, got, want T, msgAndArgs ...any) {
      if ht, ok := t.(helperT); ok { ht.Helper() }
      if !isEqual(got, want) {
          t.Errorf("got: %#v; want: %#v;%s", got, want, formatMsg(msgAndArgs...))
      }
  }
  \<close>
\<close>

definition Equal :: "host \<Rightarrow> gtype \<Rightarrow> TestingT \<Rightarrow> iface \<Rightarrow> iface \<Rightarrow> iface list \<Rightarrow> panic + TestingT" where
  "Equal H T t got want msgAndArgs =
     (let t1 = markHelper t in
      case isEqual H T got want of
        Inl p \<Rightarrow> Inl p
      | Inr eq \<Rightarrow>
          if \<not> eq
          then Inr (invoke (Errorf ''got: %#v; want: %#v;%s''
                      [got, want, str (formatMsg H msgAndArgs)]) t1)
          else Inr t1)"

text \<open>
  \<^verbatim>\<open>
  func NotEqual[T any](t TestingT, got, want T, msgAndArgs ...any) {
      if ht, ok := t.(helperT); ok { ht.Helper() }
      if isEqual(got, want) {
          t.Errorf("got: %#v; expected values to be different;%s", got, formatMsg(msgAndArgs...))
      }
  }
  \<close>
\<close>

definition NotEqual :: "host \<Rightarrow> gtype \<Rightarrow> TestingT \<Rightarrow> iface \<Rightarrow> iface \<Rightarrow> iface list \<Rightarrow> panic + TestingT" where
  "NotEqual H T t got want msgAndArgs =
     (let t1 = markHelper t in
      case isEqual H T got want of
        Inl p \<Rightarrow> Inl p
      | Inr eq \<Rightarrow>
          if eq
          then Inr (invoke (Errorf ''got: %#v; expected values to be different;%s''
                      [got, str (formatMsg H msgAndArgs)]) t1)
          else Inr t1)"

text \<open>
  \<^verbatim>\<open>
  func Nil(t TestingT, got any, msgAndArgs ...any) {
      if ht, ok := t.(helperT); ok { ht.Helper() }
      if !isNil(got) { t.Errorf("got: %#v; want: <nil>;%s", got, formatMsg(msgAndArgs...)) }
  }
  func NotNil(t TestingT, got any, msgAndArgs ...any) {
      if ht, ok := t.(helperT); ok { ht.Helper() }
      if isNil(got) { t.Errorf("got: <nil>; expected non-nil;%s", formatMsg(msgAndArgs...)) }
  }
  \<close>
\<close>

definition Nil_assert :: "host \<Rightarrow> TestingT \<Rightarrow> iface \<Rightarrow> iface list \<Rightarrow> panic + TestingT" where
  "Nil_assert H t got msgAndArgs =
     (let t1 = markHelper t in
      if \<not> isNil got
      then Inr (invoke (Errorf ''got: %#v; want: <nil>;%s''
                  [got, str (formatMsg H msgAndArgs)]) t1)
      else Inr t1)"

definition NotNil :: "host \<Rightarrow> TestingT \<Rightarrow> iface \<Rightarrow> iface list \<Rightarrow> panic + TestingT" where
  "NotNil H t got msgAndArgs =
     (let t1 = markHelper t in
      if isNil got
      then Inr (invoke (Errorf ''got: <nil>; expected non-nil;%s''
                  [str (formatMsg H msgAndArgs)]) t1)
      else Inr t1)"

text \<open>
  \<^verbatim>\<open>got.Error()\<close> on a value of static type \<^verbatim>\<open>error\<close>: a method call on the nil
  interface is a nil dereference. (A non-nil \<^verbatim>\<open>error\<close> always has the method; the
  last branch is there for totality.)
\<close>

definition callError :: "host \<Rightarrow> iface \<Rightarrow> panic + string" where
  "callError H got =
     (case got of
        None \<Rightarrow> Inl NilDereference
      | Some (D, x) \<Rightarrow>
          (case lookupError H D of
             None \<Rightarrow> Inl NotAnError
           | Some f \<Rightarrow> Inr (f x)))"

text \<open>The type switch cases \<^verbatim>\<open>case error:\<close> and \<^verbatim>\<open>case reflect.Type:\<close>.\<close>

definition implementsError :: "host \<Rightarrow> iface \<Rightarrow> bool" where
  "implementsError H v =
     (case v of
        None \<Rightarrow> False
      | Some (D, x) \<Rightarrow> lookupError H D \<noteq> None)"

fun assertReflectType :: "iface \<Rightarrow> gtype option" where
  "assertReflectType (Some (D, VRType ty)) = (if D = rtypeT then Some ty else None)"
| "assertReflectType v = None"

text \<open>
  \<^verbatim>\<open>
  func ErrorIs(t TestingT, got error, want any, msgAndArgs ...any) {
      if ht, ok := t.(helperT); ok { ht.Helper() }
      switch w := want.(type) {
      case nil:
          if got != nil { t.Errorf("unexpected error: %s;%s", got, formatMsg(msgAndArgs...)) }
      case string:
          if !strings.Contains(got.Error(), w) {
              t.Errorf("got: %q; want: %q;%s", got, want, formatMsg(msgAndArgs...))
          }
      case error:
          if !errors.Is(got, w) {
              if isNil(got) {
                  t.Errorf("got: <nil>; want: %T(%v);%s", w, w, formatMsg(msgAndArgs...))
              } else {
                  t.Errorf("got: %T(%v); want: %T(%v);%s", got, got, w, w, formatMsg(msgAndArgs...))
              }
          }
      case reflect.Type:
          target := reflect.New(w).Interface()
          if !errors.As(got, target) {
              t.Errorf("got: %T; want: %v;%s", got, w, formatMsg(msgAndArgs...))
          }
      default:
          t.Fatalf("unsupported want type: %T", want)
      }
  }
  \<close>
\<close>

definition ErrorIs :: "host \<Rightarrow> TestingT \<Rightarrow> iface \<Rightarrow> iface \<Rightarrow> iface list \<Rightarrow> panic + TestingT" where
  "ErrorIs H t got want msgAndArgs =
     (let t1 = markHelper t in
      if want = None then
        (if got \<noteq> None
         then Inr (invoke (Errorf ''unexpected error: %s;%s''
                     [got, str (formatMsg H msgAndArgs)]) t1)
         else Inr t1)
      else case assertString want of
        Some w \<Rightarrow>
          (case callError H got of
             Inl p \<Rightarrow> Inl p
           | Inr s \<Rightarrow>
               if \<not> stringsContains s w
               then Inr (invoke (Errorf ''got: %q; want: %q;%s''
                           [got, want, str (formatMsg H msgAndArgs)]) t1)
               else Inr t1)
      | None \<Rightarrow>
          if implementsError H want then
            (if \<not> errorsIs H got want then
               (if isNil got
                then Inr (invoke (Errorf ''got: <nil>; want: %T(%v);%s''
                            [want, want, str (formatMsg H msgAndArgs)]) t1)
                else Inr (invoke (Errorf ''got: %T(%v); want: %T(%v);%s''
                            [got, got, want, want, str (formatMsg H msgAndArgs)]) t1))
             else Inr t1)
          else
            (case assertReflectType want of
               Some w \<Rightarrow>
                 (let target = reflectNew H w in
                  case errorsAs H got target of
                    Inl p \<Rightarrow> Inl p
                  | Inr ok \<Rightarrow>
                      if \<not> ok
                      then Inr (invoke (Errorf ''got: %T; want: %v;%s''
                                  [got, want, str (formatMsg H msgAndArgs)]) t1)
                      else Inr t1)
             | None \<Rightarrow> Inr (invoke (Fatalf ''unsupported want type: %T'' [want]) t1)))"

text \<open>
  \<^verbatim>\<open>
  func ErrorAs(t TestingT, got error, target any, msgAndArgs ...any) {
      if ht, ok := t.(helperT); ok { ht.Helper() }
      if got == nil {
          t.Errorf("got: nil; want assignable to: %T;%s", target, formatMsg(msgAndArgs...))
          return
      }
      if !errors.As(got, target) {
          t.Errorf("got: %v#; want assignable to: %T(%#v);%s", got, target, formatMsg(msgAndArgs...))
      }
  }
  \<close>
\<close>

definition ErrorAs :: "host \<Rightarrow> TestingT \<Rightarrow> iface \<Rightarrow> iface \<Rightarrow> iface list \<Rightarrow> panic + TestingT" where
  "ErrorAs H t got target msgAndArgs =
     (let t1 = markHelper t in
      if got = None
      then Inr (invoke (Errorf ''got: nil; want assignable to: %T;%s''
                  [target, str (formatMsg H msgAndArgs)]) t1)
      else case errorsAs H got target of
        Inl p \<Rightarrow> Inl p
      | Inr ok \<Rightarrow>
          if \<not> ok
          then Inr (invoke (Errorf ''got: %v#; want assignable to: %T(%#v);%s''
                      [got, target, str (formatMsg H msgAndArgs)]) t1)
          else Inr t1)"

text \<open>
  \<^verbatim>\<open>
  func MatchesRegexp(t TestingT, got, pattern string, msgAndArgs ...any) {
      if ht, ok := t.(helperT); ok { ht.Helper() }
      matched, err := regexp.MatchString(pattern, got)
      if err != nil {
          t.Fatalf("unable to parse regexp pattern %s: %s", pattern, err.Error())
          return
      }
      if !matched {
          t.Errorf("got: %q; want to match %q;%s", got, pattern, formatMsg(msgAndArgs...))
      }
  }
  \<close>
\<close>

definition MatchesRegexp :: "host \<Rightarrow> TestingT \<Rightarrow> string \<Rightarrow> string \<Rightarrow> iface list \<Rightarrow> panic + TestingT" where
  "MatchesRegexp H t got pattern msgAndArgs =
     (let t1 = markHelper t in
      case regexpMatchString H pattern got of
        Inl err \<Rightarrow>
          Inr (invoke (Fatalf ''unable to parse regexp pattern %s: %s'' [str pattern, str err]) t1)
      | Inr matched \<Rightarrow>
          if \<not> matched
          then Inr (invoke (Errorf ''got: %q; want to match %q;%s''
                      [str got, str pattern, str (formatMsg H msgAndArgs)]) t1)
          else Inr t1)"

text \<open>
  The number of operands a format string asks for: one for each \<^verbatim>\<open>%\<close> that starts a
  verb (\<^verbatim>\<open>%%\<close> is a literal percent sign). The package's formats use no explicit
  argument indexes and no \<^verbatim>\<open>*\<close> widths.
\<close>

fun verbCount :: "string \<Rightarrow> nat" where
  "verbCount [] = 0"
| "verbCount [c] = 0"
| "verbCount (c # d # cs) =
     (if c = CHR ''%'' then (if d = CHR ''%'' then verbCount cs else Suc (verbCount cs))
      else verbCount (d # cs))"

section \<open>Notions used to state the properties\<close>

text \<open>What a call left on the handle; nothing when it panicked.\<close>

fun callsOf :: "panic + TestingT \<Rightarrow> call list" where
  "callsOf (Inl p) = []"
| "callsOf (Inr t) = calls t"

text \<open>
  A byte slice as a value: nil, or a backing array address with the bytes stored there.
\<close>

definition byteSlice :: "(addr \<times> 8 word list) option \<Rightarrow> iface" where
  "byteSlice s = Some (bytesT, VSlice (map_option (\<lambda>(a, bs). (a, map (\<lambda>b. VInt (uint b)) bs)) s))"

fun bytesOf :: "(addr \<times> 8 word list) option \<Rightarrow> 8 word list" where
  "bytesOf None = []"
| "bytesOf (Some (a, bs)) = bs"

text \<open>
  A value holds no \<open>NaN\<close> and no non-nil function where \<^verbatim>\<open>reflect.DeepEqual\<close> would
  look at it when the value is compared with itself: in the value itself, in the fields
  of a struct, the elements of an array and the contents of an interface. Behind a
  pointer, in a slice or in a map it is not looked at, since the addresses agree.
\<close>

fun holdsNoNaNOrFunc :: "gvalue \<Rightarrow> bool"
  and holdNoNaNOrFunc :: "gvalue list \<Rightarrow> bool" where
  "holdsNoNaNOrFunc (VFloat f) = (f \<noteq> NaN)"
| "holdsNoNaNOrFunc (VFunc a) = (a = None)"
| "holdsNoNaNOrFunc (VArray xs) = holdNoNaNOrFunc xs"
| "holdsNoNaNOrFunc (VStruct xs) = holdNoNaNOrFunc xs"
| "holdsNoNaNOrFunc (VIface None) = True"
| "holdsNoNaNOrFunc (VIface (Some (D, x))) = holdsNoNaNOrFunc x"
| "holdsNoNaNOrFunc (VBool b) = True"
| "holdsNoNaNOrFunc (VInt i) = True"
| "holdsNoNaNOrFunc (VString s) = True"
| "holdsNoNaNOrFunc (VChan a) = True"
| "holdsNoNaNOrFunc (VMap m) = True"
| "holdsNoNaNOrFunc (VPointer p) = True"
| "holdsNoNaNOrFunc (VSlice s) = True"
| "holdsNoNaNOrFunc (VRType ty) = True"
| "holdNoNaNOrFunc [] = True"
| "holdNoNaNOrFunc (x # xs) = (holdsNoNaNOrFunc x \<and> holdNoNaNOrFunc xs)"

text \<open>
  The values on which the comparator is reflexive: a value whose own \<^verbatim>\<open>Equal\<close>
  method is consulted must be nil or be accepted by that method; any other value must
  hold no \<open>NaN\<close> and no non-nil function in the sense above.
\<close>

definition selfComparable :: "host \<Rightarrow> gtype \<Rightarrow> iface \<Rightarrow> bool" where
  "selfComparable H T v =
     (case assertEqualer H T v of
        Some equalable \<Rightarrow> isNil v \<or> equalable v
      | None \<Rightarrow>
          (case v of
             None \<Rightarrow> True
           | Some (D, x) \<Rightarrow> holdsNoNaNOrFunc x))"

text \<open>
  When \<^verbatim>\<open>ErrorIs\<close> is meant to pass, by the shape of \<open>want\<close>: no error wanted and
  none got; a string contained in the message of \<open>got\<close>; an error that \<^verbatim>\<open>errors.Is\<close>
  finds in the chain of \<open>got\<close>; a type descriptor for which \<^verbatim>\<open>errors.As\<close> finds a
  link of the chain; never for any other \<open>want\<close>.
\<close>

definition ErrorIs_holds :: "host \<Rightarrow> iface \<Rightarrow> iface \<Rightarrow> bool" where
  "ErrorIs_holds H got want =
     (if want = None then got = None
      else case assertString want of
        Some w \<Rightarrow>
          (case callError H got of
             Inl p \<Rightarrow> False
           | Inr s \<Rightarrow> stringsContains s w)
      | None \<Rightarrow>
          if implementsError H want then errorsIs H got want
          else
            (case assertReflectType want of
               Some w \<Rightarrow> errorsAs H got (reflectNew H w) = Inr True
             | None \<Rightarrow> False))"

section \<open>A sample host\<close>

text \<open>
  To run the model on concrete inputs the parameters need values. The sample host has the
  types of the package's tests: \<^verbatim>\<open>noisy\<close>, a struct whose \<^verbatim>\<open>Equal\<close> compares the
  field \<^verbatim>\<open>val\<close> and ignores \<^verbatim>\<open>noise\<close>; \<^verbatim>\<open>errType\<close>, a string type that is an
  error; and \<^verbatim>\<open>*errors.errorString\<close>, what \<^verbatim>\<open>errors.New\<close> returns. None of its
  errors wraps another one or has an \<^verbatim>\<open>Is\<close> or \<^verbatim>\<open>As\<close> method. The library
  functions are given as far as the examples go.
\<close>

definition noisyT :: gtype where
  "noisyT = TNamed ''assert.noisy'' (TStruct [(''val'', TInt), (''noise'', TFloat64)])"

definition errTypeT :: gtype where
  "errTypeT = TNamed ''assert.errType'' TString"

definition errorStringT :: gtype where
  "errorStringT = TPointer (TNamed ''errors.errorString'' (TStruct [(''s'', TString)]))"

text \<open>\<^verbatim>\<open>func (n noisy) Equal(other noisy) bool { return n.val == other.val }\<close>\<close>

definition noisyEqual :: "gvalue \<Rightarrow> iface \<Rightarrow> bool" where
  "noisyEqual n other =
     (case other of
        None \<Rightarrow> False
      | Some (D, o') \<Rightarrow>
          (case (n, o') of
             (VStruct (nval # nrest), VStruct (oval # orest)) \<Rightarrow> goEq nval oval
           | _ \<Rightarrow> False))"

definition sampleEqualMethod :: "gtype \<Rightarrow> (gtype \<times> (gvalue \<Rightarrow> iface \<Rightarrow> bool)) option" where
  "sampleEqualMethod D = (if D = noisyT then Some (noisyT, noisyEqual) else None)"

text \<open>
  \<^verbatim>\<open>func (e errType) Error() string { return string(e) }\<close> and
  \<^verbatim>\<open>func (e *errorString) Error() string { return e.s }\<close>
\<close>

definition errTypeError :: "gvalue \<Rightarrow> string" where
  "errTypeError e = (case e of VString s \<Rightarrow> s | _ \<Rightarrow> [])"

definition errorStringError :: "gvalue \<Rightarrow> string" where
  "errorStringError e =
     (case e of
        VPointer (Some (a, VStruct [VString s])) \<Rightarrow> s
      | _ \<Rightarrow> [])"

definition sampleErrorMethod :: "gtype \<Rightarrow> (gvalue \<Rightarrow> string) option" where
  "sampleErrorMethod D =
     (if D = errTypeT then Some errTypeError
      else if D = errorStringT then Some errorStringError
      else None)"

text \<open>Decimal digits, for \<^verbatim>\<open>%d\<close> and \<^verbatim>\<open>%v\<close> on integers.\<close>

fun digitsOf :: "nat \<Rightarrow> string" where
  "digitsOf n =
     (if n < 10 then [''0123456789'' ! n]
      else digitsOf (n div 10) @ [''0123456789'' ! (n mod 10)])"

declare digitsOf.simps [simp del]

definition showInt :: "int \<Rightarrow> string" where
  "showInt i = (if i < 0 then ''-'' @ digitsOf (nat (- i)) else digitsOf (nat i))"

text \<open>The default rendering of a string, an integer, a boolean and nil.\<close>

definition showOperand :: "iface \<Rightarrow> string" where
  "showOperand v =
     (case v of
        None \<Rightarrow> ''<nil>''
      | Some (D, x) \<Rightarrow>
          (case x of
             VString s \<Rightarrow> s
           | VInt i \<Rightarrow> showInt i
           | VBool b \<Rightarrow> if b then ''true'' else ''false''
           | _ \<Rightarrow> ''?''))"

definition isStringOperand :: "iface \<Rightarrow> bool" where
  "isStringOperand v = (case v of None \<Rightarrow> False | Some (D, x) \<Rightarrow> kindOf D = KString)"

text \<open>\<^verbatim>\<open>fmt.Fprint\<close>: a space goes between two operands when neither is a string.\<close>

fun sampleFprint :: "iface list \<Rightarrow> string" where
  "sampleFprint [] = []"
| "sampleFprint [a] = showOperand a"
| "sampleFprint (a # b # rest) =
     showOperand a
     @ (if isStringOperand a \<or> isStringOperand b then [] else '' '')
     @ sampleFprint (b # rest)"

text \<open>
  \<^verbatim>\<open>fmt.Fprintf\<close> for the verbs \<^verbatim>\<open>%v\<close>, \<^verbatim>\<open>%s\<close> and \<^verbatim>\<open>%d\<close> on operands they
  fit, and \<^verbatim>\<open>%%\<close>; a verb without an operand is shown as missing.
\<close>

fun sampleFprintf :: "string \<Rightarrow> iface list \<Rightarrow> string" where
  "sampleFprintf [] args = []"
| "sampleFprintf [c] args = [c]"
| "sampleFprintf (c # d # cs) args =
     (if c = CHR ''%'' then
        (if d = CHR ''%'' then CHR ''%'' # sampleFprintf cs args
         else case args of
           [] \<Rightarrow> ''%!'' @ [d] @ ''(MISSING)'' @ sampleFprintf cs args
         | a # rest \<Rightarrow> showOperand a @ sampleFprintf cs rest)
      else c # sampleFprintf (d # cs) args)"

text \<open>
  \<^verbatim>\<open>regexp.MatchString\<close> for patterns without metacharacters, which match where they
  occur, and for the malformed pattern \<^verbatim>\<open>[\<close>.
\<close>

definition sampleMatchString :: "string \<Rightarrow> string \<Rightarrow> string + bool" where
  "sampleMatchString pattern s =
     (if pattern = ''[''
      then Inl ''error parsing regexp: missing closing ]: `[`''
      else Inr (stringsContains s pattern))"

text \<open>Go's \<^verbatim>\<open>==\<close> on two interface values.\<close>

fun ifaceEq :: "iface \<Rightarrow> iface \<Rightarrow> bool" where
  "ifaceEq None w = (w = None)"
| "ifaceEq (Some (t1, x)) w =
     (case w of None \<Rightarrow> False | Some (t2, y) \<Rightarrow> t1 = t2 \<and> goEq x y)"

text \<open>\<^verbatim>\<open>errors.Is\<close> on errors that wrap nothing: \<^verbatim>\<open>err == target\<close>.\<close>

definition sampleIs :: "iface \<Rightarrow> iface \<Rightarrow> bool" where
  "sampleIs err target = ifaceEq err target"

fun pointerElem :: "gtype \<Rightarrow> gtype option" where
  "pointerElem (TPointer E) = Some E"
| "pointerElem (TNamed n u) = pointerElem u"
| "pointerElem t = None"

text \<open>
  \<^verbatim>\<open>errors.As\<close> on errors that wrap nothing: false for a nil error; a panic unless the
  target is a non-nil pointer to an interface type or to a type that implements
  \<^verbatim>\<open>error\<close>; then whether the error is assignable to what the target points to. Of
  interface types the sample knows \<^verbatim>\<open>error\<close> and \<^verbatim>\<open>any\<close>.
\<close>

definition sampleAs :: "iface \<Rightarrow> iface \<Rightarrow> panic + bool" where
  "sampleAs err target =
     (case err of
        None \<Rightarrow> Inr False
      | Some (D, x) \<Rightarrow>
          (case target of
             None \<Rightarrow> Inl (LibraryPanic ''errors: target cannot be nil'')
           | Some (P, p) \<Rightarrow>
               (case pointerElem P of
                  None \<Rightarrow> Inl (LibraryPanic ''errors: target must be a non-nil pointer'')
                | Some E \<Rightarrow>
                    if valueIsNil p
                    then Inl (LibraryPanic ''errors: target must be a non-nil pointer'')
                    else if kindOf E = KInterface
                    then Inr (E = TInterface ''error'' \<or> E = TInterface ''any'')
                    else if sampleErrorMethod E = None
                    then Inl (LibraryPanic ''errors: *target must be interface or implement error'')
                    else Inr (D = E))))"

text \<open>The zero value of a type, and \<^verbatim>\<open>reflect.New\<close>: a pointer to a new zero value.\<close>

fun zeroValue :: "gtype \<Rightarrow> gvalue"
  and zeroFields :: "(string \<times> gtype) list \<Rightarrow> gvalue list" where
  "zeroValue TBool = VBool False"
| "zeroValue TInt = VInt 0"
| "zeroValue TInt32 = VInt 0"
| "zeroValue TInt64 = VInt 0"
| "zeroValue TUint8 = VInt 0"
| "zeroValue TFloat64 = VFloat (Finite 0)"
| "zeroValue TString = VString []"
| "zeroValue (TArray n t) = VArray (replicate n (zeroValue t))"
| "zeroValue (TChan t) = VChan None"
| "zeroValue (TFunc ps rs) = VFunc None"
| "zeroValue (TInterface n) = VIface None"
| "zeroValue (TMap k v) = VMap None"
| "zeroValue (TPointer t) = VPointer None"
| "zeroValue (TSlice t) = VSlice None"
| "zeroValue (TStruct fs) = VStruct (zeroFields fs)"
| "zeroValue (TNamed n u) = zeroValue u"
| "zeroFields [] = []"
| "zeroFields ((n, t) # fs) = zeroValue t # zeroFields fs"

definition sampleNew :: "gtype \<Rightarrow> iface" where
  "sampleNew w = Some (TPointer w, VPointer (Some (4096, zeroValue w)))"

definition sampleHost :: host where
  "sampleHost =
     \<lparr> equalMethod = sampleEqualMethod,
       errorMethod = sampleErrorMethod,
       fmtFprintf = sampleFprintf,
       fmtFprint = sampleFprint,
       regexpMatchString = sampleMatchString,
       errorsIs = sampleIs,
       errorsAs = sampleAs,
       reflectNew = sampleNew \<rparr>"

text \<open>A handle that implements \<^verbatim>\<open>Helper()\<close> and has recorded nothing yet.\<close>

definition freshT :: TestingT where
  "freshT = \<lparr> implementsHelper = True, calls = [] \<rparr>"

abbreviation intV :: "int \<Rightarrow> iface" where
  "intV i \<equiv> Some (TInt, VInt i)"

definition newError :: "addr \<Rightarrow> string \<Rightarrow> iface" where
  "newError a s = Some (errorStringT, VPointer (Some (a, VStruct [VString s])))"

definition noisyV :: "int \<Rightarrow> float64 \<Rightarrow> iface" where
  "noisyV val noise = Some (noisyT, VStruct [VInt val, VFloat noise])"

section \<open>Auxiliary facts\<close>

lemma reports_markHelper: "reports (markHelper t) = reports t"
  by (simp add: reports_def markHelper_def invoke_def)

lemma floatEq_self: "floatEq f f = (f \<noteq> NaN)"
  by (cases f) simp_all

text \<open>A reference compared with itself: the addresses agree, the contents are not read.\<close>

lemma deepValueEqual_same_reference:
  "deepValueEqual (VMap m) (VMap m)"
  "deepValueEqual (VPointer p) (VPointer p)"
  "deepValueEqual (VSlice s) (VSlice s)"
proof -
  show "deepValueEqual (VMap m) (VMap m)" by (cases m) auto
  show "deepValueEqual (VPointer p) (VPointer p)" by (cases p) auto
  show "deepValueEqual (VSlice s) (VSlice s)" by (cases s) auto
qed

text \<open>
  \<^verbatim>\<open>reflect.DeepEqual\<close> finds a value equal to itself exactly when the value holds
  no \<open>NaN\<close> and no non-nil function where it looks.
\<close>

lemma deepValueEqual_self:
  "deepValueEqual x x = holdsNoNaNOrFunc x"
  "deepValueEqualList xs xs = holdNoNaNOrFunc xs"
  by (induction x and xs rule: holdsNoNaNOrFunc_holdNoNaNOrFunc.induct)
     (simp_all add: floatEq_self deepValueEqual_same_reference)

lemma selfComparable_isEqual:
  assumes "selfComparable H T v"
  shows "isEqual H T v v = Inr True"
proof (cases "isNil v")
  case True
  then show ?thesis by (simp add: isEqual_def)
next
  case notnil: False
  show ?thesis
  proof (cases "assertEqualer H T v")
    case (Some equalable)
    with assms notnil show ?thesis
      by (simp add: isEqual_def selfComparable_def)
  next
    case noeq: None
    show ?thesis
    proof (cases v)
      case None
      then show ?thesis using notnil by (simp add: isNil_def)
    next
      case (Some dx)
      obtain D x where dx: "dx = (D, x)" by (cases dx)
      from assms noeq Some dx have h: "holdsNoNaNOrFunc x"
        by (simp add: selfComparable_def)
      show ?thesis
      proof (cases "assertBytes v")
        case None
        with noeq notnil Some dx h show ?thesis
          by (simp add: isEqual_def deepValueEqual_self)
      next
        case (Some aBytes)
        with noeq notnil show ?thesis
          by (simp add: isEqual_def bytesEqual_def)
      qed
    qed
  qed
qed

text \<open>
  Without a consulted \<^verbatim>\<open>Equal\<close> method, and apart from nil values and byte slices,
  the condition is also necessary: the comparator says of a value that it equals itself
  exactly when the value holds no \<open>NaN\<close> and no non-nil function.
\<close>

lemma isEqual_self_by_DeepEqual:
  assumes "\<not> isNil (Some (D, x))"
    and "assertEqualer H T (Some (D, x)) = None"
    and "D \<noteq> bytesT"
  shows "isEqual H T (Some (D, x)) (Some (D, x)) = Inr (holdsNoNaNOrFunc x)"
  using assms by (simp add: isEqual_def assertBytes_def deepValueEqual_self)

text \<open>Types without methods have no \<^verbatim>\<open>Equal\<close>, whatever the host.\<close>

lemma lookupEqual_basic [simp]:
  "lookupEqual H TInt = None"
  "lookupEqual H TFloat64 = None"
  "lookupEqual H bytesT = None"
  "lookupEqual H (TFunc ps rs) = None"
  "lookupEqual H (TPointer TInt) = None"
  "lookupEqual H (TPointer TString) = None"
  by (simp_all add: lookupEqual_def)

lemma lookupEqual_sample_noisy: "lookupEqual sampleHost noisyT = Some (noisyT, noisyEqual)"
  by (simp add: lookupEqual_def sampleHost_def sampleEqualMethod_def noisyT_def)

lemma isEqual_sample_ints: "isEqual sampleHost TInt (intV 1) (intV 2) = Inr False"
  by (simp add: isEqual_def isNil_def assertEqualer_def assertBytes_def)

lemma isEqual_sample_same_int: "isEqual sampleHost TInt (intV 42) (intV 42) = Inr True"
  by (simp add: isEqual_def isNil_def assertEqualer_def assertBytes_def)

lemma regexp_sample:
  "regexpMatchString sampleHost ''['' ''abc'' = Inl ''error parsing regexp: missing closing ]: `[`''"
  "regexpMatchString sampleHost ''bd'' ''abc'' = Inr False"
  "regexpMatchString sampleHost ''bc'' ''abc'' = Inr True"
  by (simp_all add: sampleHost_def sampleMatchString_def)

subsection \<open>Byte slices\<close>

lemma isNil_byteSlice: "isNil (byteSlice s) = (s = None)"
  by (simp add: isNil_def byteSlice_def)

lemma sliceElems_byteSlice:
  "sliceElems (VSlice (map_option (\<lambda>(a, bs). (a, map (\<lambda>b. VInt (uint b)) bs)) s))
     = map (\<lambda>b. VInt (uint b)) (bytesOf s)"
  by (cases s) auto

lemma byte_values_inj: "inj (\<lambda>b::8 word. VInt (uint b))"
  by (rule injI) (simp add: word_uint_eq_iff)

lemma isEqual_byteSlice: "isEqual H T (byteSlice a) (byteSlice b) = Inr (bytesOf a = bytesOf b)"
proof -
  have "bytesEqual (VSlice (map_option (\<lambda>(a, bs). (a, map (\<lambda>b. VInt (uint b)) bs)) a))
          (VSlice (map_option (\<lambda>(a, bs). (a, map (\<lambda>b. VInt (uint b)) bs)) b))
        = (bytesOf a = bytesOf b)"
    unfolding bytesEqual_def sliceElems_byteSlice
    by (simp add: inj_map_eq_map [OF byte_values_inj])
  moreover have "assertEqualer H T (byteSlice a) = None"
    by (simp add: assertEqualer_def byteSlice_def)
  moreover have "isNil (byteSlice a) \<and> isNil (byteSlice b) \<Longrightarrow> bytesOf a = bytesOf b"
    by (simp add: isNil_byteSlice)
  ultimately show ?thesis
    by (auto simp: isEqual_def assertBytes_def byteSlice_def)
qed

section \<open>The properties\<close>

text \<open>
  Claim C1. Whenever \<open>got\<close> and \<open>want\<close> both satisfy \<^verbatim>\<open>isNil\<close>, \<^verbatim>\<open>isEqual\<close>
  returns true, whatever the type argument and whatever the dynamic types of the two
  values: a nil \<^verbatim>\<open>*int\<close> and a nil \<^verbatim>\<open>*string\<close> passed at \<^verbatim>\<open>any\<close> compare
  equal, although \<^verbatim>\<open>reflect.DeepEqual\<close> tells them apart.
\<close>

theorem isEqual_double_nil:
  "isNil got \<Longrightarrow> isNil want \<Longrightarrow> isEqual H T got want = Inr True"
  by (simp add: isEqual_def)

theorem isEqual_double_nil_witness:
  "isNil (Some (TPointer TInt, VPointer None))
   \<and> isNil (Some (TPointer TString, VPointer None))
   \<and> isEqual sampleHost (TInterface ''any'')
        (Some (TPointer TInt, VPointer None)) (Some (TPointer TString, VPointer None)) = Inr True
   \<and> \<not> DeepEqual (Some (TPointer TInt, VPointer None)) (Some (TPointer TString, VPointer None))"
proof -
  have a: "isNil (Some (TPointer TInt, VPointer None))" by (simp add: isNil_def)
  have b: "isNil (Some (TPointer TString, VPointer None))" by (simp add: isNil_def)
  show ?thesis
    using a b isEqual_double_nil [OF a b, of sampleHost "TInterface ''any''"] by simp
qed

text \<open>
  Claim C2, as the code has it. For byte slices \<open>a\<close> and \<open>b\<close>, \<^verbatim>\<open>isEqual\<close> returns
  true if and only if they have the same length and the same byte at every index. The
  comparison is \<^verbatim>\<open>bytes.Equal\<close>, for which a nil slice is an empty slice: a nil and
  an empty byte slice are equal (the claim has them unequal).
\<close>

theorem isEqual_bytes:
  "isEqual H T (byteSlice a) (byteSlice b) =
     Inr (length (bytesOf a) = length (bytesOf b)
          \<and> (\<forall>i < length (bytesOf a). bytesOf a ! i = bytesOf b ! i))"
  by (simp add: isEqual_byteSlice list_eq_iff_nth_eq)

theorem isEqual_bytes_witness:
  "isEqual sampleHost bytesT (byteSlice (Some (1, [97, 98, 99]))) (byteSlice (Some (2, [97, 98, 99])))
     = Inr True
   \<and> isEqual sampleHost bytesT (byteSlice (Some (1, [97, 98, 99]))) (byteSlice (Some (2, [97, 98, 100])))
     = Inr False
   \<and> isEqual sampleHost bytesT (byteSlice (Some (1, [97, 98, 99]))) (byteSlice (Some (1, [97, 98])))
     = Inr False"
  using isEqual_bytes [of sampleHost bytesT "Some (1, [97, 98, 99])" "Some (2, [97, 98, 99])",
      folded list_eq_iff_nth_eq]
    isEqual_bytes [of sampleHost bytesT "Some (1, [97, 98, 99])" "Some (2, [97, 98, 100])",
      folded list_eq_iff_nth_eq]
    isEqual_bytes [of sampleHost bytesT "Some (1, [97, 98, 99])" "Some (1, [97, 98])",
      folded list_eq_iff_nth_eq]
  by simp

text \<open>
  The nil byte slice and an empty one: only the first is nil, so the double-nil rule does
  not apply, and \<^verbatim>\<open>isEqual\<close> still returns true, in either order.
\<close>

theorem isEqual_bytes_counterexample:
  "isNil (byteSlice None) \<and> \<not> isNil (byteSlice (Some (7, [])))
   \<and> isEqual sampleHost bytesT (byteSlice None) (byteSlice (Some (7, []))) = Inr True
   \<and> isEqual sampleHost bytesT (byteSlice (Some (7, []))) (byteSlice None) = Inr True"
  by (simp add: isNil_byteSlice isEqual_byteSlice)

text \<open>
  Claim C3, as the code has it. For every value \<open>v\<close> that is nil or accepted by its
  own \<^verbatim>\<open>Equal\<close> method, when that method is the one consulted, and otherwise holds no
  \<open>NaN\<close> and no non-nil function outside pointers, slices and maps:
  \<^verbatim>\<open>Equal(t, v, v)\<close> reports nothing and \<^verbatim>\<open>NotEqual(t, v, v)\<close> reports a failure.
\<close>

theorem Equal_self:
  assumes "selfComparable H T v"
  shows "Equal H T t v v msgAndArgs = Inr (markHelper t)
       \<and> NotEqual H T t v v msgAndArgs =
           Inr (invoke (Errorf ''got: %#v; expected values to be different;%s''
                  [v, str (formatMsg H msgAndArgs)]) (markHelper t))"
  using selfComparable_isEqual [OF assms]
  by (simp add: Equal_def NotEqual_def)

theorem Equal_self_witness:
  "selfComparable sampleHost noisyT (noisyV 42 NaN)
   \<and> Equal sampleHost noisyT freshT (noisyV 42 NaN) (noisyV 42 NaN) [] = Inr (markHelper freshT)
   \<and> callsOf (NotEqual sampleHost noisyT freshT (noisyV 42 NaN) (noisyV 42 NaN) []) =
       [Helper, Errorf ''got: %#v; expected values to be different;%s'' [noisyV 42 NaN, str []]]"
proof -
  have h: "selfComparable sampleHost noisyT (noisyV 42 NaN)"
    by (simp add: selfComparable_def assertEqualer_def lookupEqual_sample_noisy noisyV_def
        noisyEqual_def)
  show ?thesis
    using h Equal_self [OF h, of freshT "[]"]
    by (simp add: markHelper_def invoke_def freshT_def)
qed

text \<open>
  A \<^verbatim>\<open>float64\<close> \<open>NaN\<close> and a non-nil function value, each compared with itself:
  \<^verbatim>\<open>Equal\<close> reports a failure and \<^verbatim>\<open>NotEqual\<close> reports nothing.
\<close>

theorem Equal_self_counterexample:
  "callsOf (Equal sampleHost TFloat64 freshT
             (Some (TFloat64, VFloat NaN)) (Some (TFloat64, VFloat NaN)) [])
     = [Helper, Errorf ''got: %#v; want: %#v;%s''
                  [Some (TFloat64, VFloat NaN), Some (TFloat64, VFloat NaN), str []]]
   \<and> callsOf (NotEqual sampleHost TFloat64 freshT
             (Some (TFloat64, VFloat NaN)) (Some (TFloat64, VFloat NaN)) [])
     = [Helper]
   \<and> callsOf (Equal sampleHost (TFunc [] []) freshT
             (Some (TFunc [] [], VFunc (Some 1))) (Some (TFunc [] [], VFunc (Some 1))) [])
     = [Helper, Errorf ''got: %#v; want: %#v;%s''
                  [Some (TFunc [] [], VFunc (Some 1)), Some (TFunc [] [], VFunc (Some 1)), str []]]
   \<and> callsOf (NotEqual sampleHost (TFunc [] []) freshT
             (Some (TFunc [] [], VFunc (Some 1))) (Some (TFunc [] [], VFunc (Some 1))) [])
     = [Helper]"
  by (simp add: Equal_def NotEqual_def isEqual_def isNil_def assertEqualer_def assertBytes_def
      markHelper_def invoke_def freshT_def)

text \<open>
  Claim C4. When \<open>got\<close> and \<open>want\<close> are not both nil and the dynamic type of \<open>got\<close>
  has a method \<^verbatim>\<open>Equal(T) bool\<close> for the type argument \<open>T\<close>, \<^verbatim>\<open>isEqual\<close> returns
  exactly what that method returns on \<open>got\<close> and \<open>want\<close>: nothing of \<open>want\<close> but
  its value enters the result, and \<^verbatim>\<open>reflect.DeepEqual\<close> is not asked. Two \<^verbatim>\<open>noisy\<close>
  values that differ in \<^verbatim>\<open>noise\<close> only are equal, though not deeply equal.
\<close>

theorem isEqual_equaler:
  assumes "\<not> (isNil got \<and> isNil want)"
    and "got = Some (D, x)"
    and "lookupEqual H D = Some (T, equal)"
  shows "isEqual H T got want = Inr (equal x want)"
  using assms by (auto simp: isEqual_def assertEqualer_def)

theorem isEqual_equaler_witness:
  "\<not> (isNil (noisyV 42 (Finite 1)) \<and> isNil (noisyV 42 (Finite 2)))
   \<and> lookupEqual sampleHost noisyT = Some (noisyT, noisyEqual)
   \<and> isEqual sampleHost noisyT (noisyV 42 (Finite 1)) (noisyV 42 (Finite 2)) = Inr True
   \<and> DeepEqual (noisyV 42 (Finite 1)) (noisyV 42 (Finite 2)) = False"
proof -
  have a: "\<not> (isNil (noisyV 42 (Finite 1)) \<and> isNil (noisyV 42 (Finite 2)))"
    by (simp add: isNil_def noisyV_def noisyT_def)
  have b: "noisyV 42 (Finite 1) = Some (noisyT, VStruct [VInt 42, VFloat (Finite 1)])"
    by (simp add: noisyV_def)
  show ?thesis
    using a isEqual_equaler [OF a b lookupEqual_sample_noisy]
    by (simp add: lookupEqual_sample_noisy noisyEqual_def noisyV_def)
qed

text \<open>
  Claim C5, as the code has it. When \<^verbatim>\<open>isEqual(got, want)\<close> is false, \<^verbatim>\<open>Equal\<close>
  reports through \<^verbatim>\<open>Errorf\<close>, the handle's non-fatal formatted report, with the format
  \<^verbatim>\<open>got: %#v; want: %#v;%s\<close> and the operands \<open>got\<close>, \<open>want\<close> and the suffix
  built by \<^verbatim>\<open>formatMsg\<close>; it makes no other report.
\<close>

theorem Equal_mismatch_reported:
  assumes "isEqual H T got want = Inr False"
  shows "Equal H T t got want msgAndArgs =
           Inr (invoke (Errorf ''got: %#v; want: %#v;%s''
                  [got, want, str (formatMsg H msgAndArgs)]) (markHelper t))"
  using assms by (simp add: Equal_def)

theorem Equal_mismatch_reported_witness:
  "isEqual sampleHost TInt (intV 1) (intV 2) = Inr False
   \<and> Equal sampleHost TInt freshT (intV 1) (intV 2) [str ''%d times around the moon'', intV 3] =
       Inr \<lparr> implementsHelper = True,
             calls = [Helper, Errorf ''got: %#v; want: %#v;%s''
                        [intV 1, intV 2, str '' 3 times around the moon'']] \<rparr>"
  using isEqual_sample_ints
    Equal_mismatch_reported [OF isEqual_sample_ints, of freshT
      "[str ''%d times around the moon'', intV 3]"]
  by (simp add: markHelper_def invoke_def freshT_def sampleHost_def showOperand_def showInt_def
      digitsOf.simps)

text \<open>\<^verbatim>\<open>Equal(t, 1, 2)\<close>: the one report is an \<^verbatim>\<open>Errorf\<close>; no fatal report is made.\<close>

theorem Equal_fatal_counterexample:
  "isEqual sampleHost TInt (intV 1) (intV 2) = Inr False
   \<and> callsOf (Equal sampleHost TInt freshT (intV 1) (intV 2) []) =
       [Helper, Errorf ''got: %#v; want: %#v;%s'' [intV 1, intV 2, str []]]
   \<and> filter isFatal (callsOf (Equal sampleHost TInt freshT (intV 1) (intV 2) [])) = []"
  by (simp add: isEqual_sample_ints Equal_def markHelper_def invoke_def freshT_def)

text \<open>
  Claim C6 says that no assertion panics. The code does, on two inputs the claim names:
  \<^verbatim>\<open>ErrorIs\<close> with a nil \<open>got\<close> and a string \<open>want\<close> calls \<^verbatim>\<open>got.Error()\<close> on the
  nil interface, and \<^verbatim>\<open>Equal\<close> at type \<^verbatim>\<open>any\<close> with a byte slice \<open>got\<close> and an
  \<^verbatim>\<open>int\<close> \<open>want\<close> fails the unchecked type assertion \<^verbatim>\<open>any(want).([]byte)\<close>.
  Neither call reports through the handle.
\<close>

theorem assertions_panic:
  "ErrorIs H t None (str w) msgAndArgs = Inl NilDereference
   \<and> Equal H (TInterface ''any'') t (byteSlice (Some (a, bs))) (intV 42) msgAndArgs
       = Inl InterfaceConversion"
  by (simp add: ErrorIs_def callError_def Equal_def isEqual_def isNil_def byteSlice_def
      assertEqualer_def assertBytes_def)

text \<open>
  Claim C7. If the pattern does not compile, \<^verbatim>\<open>MatchesRegexp\<close> makes one report,
  through \<^verbatim>\<open>Fatalf\<close>, with the pattern and the text of the compile error as operands of
  \<^verbatim>\<open>unable to parse regexp pattern %s: %s\<close>, and nothing about a match. If the pattern
  compiles and does not match, it makes one report through \<^verbatim>\<open>Errorf\<close> with the format
  \<^verbatim>\<open>got: %q; want to match %q;%s\<close> and the operands \<open>got\<close>, the pattern and the
  suffix. If the pattern compiles and matches, it reports nothing.
\<close>

theorem MatchesRegexp_cases:
  "(regexpMatchString H pattern got = Inl err \<longrightarrow>
      MatchesRegexp H t got pattern msgAndArgs =
        Inr (invoke (Fatalf ''unable to parse regexp pattern %s: %s'' [str pattern, str err])
               (markHelper t)))
   \<and> (regexpMatchString H pattern got = Inr False \<longrightarrow>
      MatchesRegexp H t got pattern msgAndArgs =
        Inr (invoke (Errorf ''got: %q; want to match %q;%s''
                       [str got, str pattern, str (formatMsg H msgAndArgs)])
               (markHelper t)))
   \<and> (regexpMatchString H pattern got = Inr True \<longrightarrow>
      MatchesRegexp H t got pattern msgAndArgs = Inr (markHelper t))"
  by (simp add: MatchesRegexp_def)

theorem MatchesRegexp_cases_witness:
  "callsOf (MatchesRegexp sampleHost freshT ''abc'' ''['' [str ''ctx'']) =
      [Helper, Fatalf ''unable to parse regexp pattern %s: %s''
         [str ''['', str ''error parsing regexp: missing closing ]: `[`'']]
   \<and> callsOf (MatchesRegexp sampleHost freshT ''abc'' ''bd'' [str ''ctx'']) =
      [Helper, Errorf ''got: %q; want to match %q;%s'' [str ''abc'', str ''bd'', str '' ctx'']]
   \<and> callsOf (MatchesRegexp sampleHost freshT ''abc'' ''bc'' [str ''ctx'']) = [Helper]"
  using MatchesRegexp_cases [of sampleHost "''[''" "''abc''" _ freshT "[str ''ctx'']"]
    MatchesRegexp_cases [of sampleHost "''bd''" "''abc''" _ freshT "[str ''ctx'']"]
    MatchesRegexp_cases [of sampleHost "''bc''" "''abc''" _ freshT "[str ''ctx'']"]
  by (simp add: regexp_sample markHelper_def invoke_def freshT_def)

text \<open>
  Claim C8 gives the report of \<^verbatim>\<open>ErrorAs\<close> on a non-nil error that does not match as
  \<^verbatim>\<open>got: {got}; want assignable to: {targetType}({target!r});\<close> and the suffix. The
  code's format is \<^verbatim>\<open>got: %v#; want assignable to: %T(%#v);%s\<close>: the \<^verbatim>\<open>#\<close>
  follows the first verb, and the four verbs get three operands, \<open>got\<close>, \<open>target\<close>
  and the suffix, so that the suffix is shown where the target should be and the last
  verb has no operand. Here with \<^verbatim>\<open>errors.New("oops")\<close> and a pointer to an
  \<^verbatim>\<open>errType\<close>.
\<close>

theorem ErrorAs_mismatch_operands:
  "callsOf (ErrorAs sampleHost freshT (newError 1 ''oops'')
              (Some (TPointer errTypeT, VPointer (Some (2, VString [])))) []) =
     [Helper, Errorf ''got: %v#; want assignable to: %T(%#v);%s''
        [newError 1 ''oops'', Some (TPointer errTypeT, VPointer (Some (2, VString []))), str []]]
   \<and> verbCount ''got: %v#; want assignable to: %T(%#v);%s'' = 4
   \<and> length [newError 1 ''oops'', Some (TPointer errTypeT, VPointer (Some (2, VString []))),
        str []] = 3"
  by (simp add: ErrorAs_def newError_def sampleHost_def sampleAs_def sampleErrorMethod_def
      errTypeT_def errorStringT_def markHelper_def invoke_def freshT_def)

text \<open>
  Claim C9. \<^verbatim>\<open>formatMsg\<close> returns the empty string for no arguments; a space and the
  string itself for one string argument, which is not read as a format; a space and what
  \<^verbatim>\<open>fmt.Fprintf\<close> writes for the first argument as format and the others as operands,
  when the first of two or more arguments is a string; and whenever the result is not
  empty it begins with a space, not with a semicolon.
\<close>

theorem formatMsg_cases:
  "formatMsg H [] = []
   \<and> formatMsg H [str s] = '' '' @ s
   \<and> formatMsg H (str s # a # rest) = '' '' @ fmtFprintf H s (a # rest)
   \<and> (formatMsg H msgAndArgs \<noteq> [] \<longrightarrow>
        hd (formatMsg H msgAndArgs) = CHR '' '' \<and> hd (formatMsg H msgAndArgs) \<noteq> CHR '';'')"
  by (cases "(H, msgAndArgs)" rule: formatMsg.cases) simp_all

theorem formatMsg_cases_witness:
  "formatMsg sampleHost [str ''100%d''] = '' 100%d''
   \<and> formatMsg sampleHost [str ''%d times around the moon'', intV 3] = '' 3 times around the moon''
   \<and> formatMsg sampleHost [str ''100%d''] \<noteq> []
   \<and> hd (formatMsg sampleHost [str ''100%d'']) = CHR '' ''"
  using formatMsg_cases [of sampleHost "''100%d''" _ _ "[str ''100%d'']"]
    formatMsg_cases [of sampleHost "''%d times around the moon''" "intV 3" "[]" "[]"]
  by (simp add: sampleHost_def showOperand_def showInt_def digitsOf.simps)

text \<open>
  Claim C10. When its success condition holds, each of \<^verbatim>\<open>Equal\<close>, \<^verbatim>\<open>NotEqual\<close>,
  \<^verbatim>\<open>Nil\<close>, \<^verbatim>\<open>NotNil\<close>, \<^verbatim>\<open>ErrorIs\<close>, \<^verbatim>\<open>ErrorAs\<close> and \<^verbatim>\<open>MatchesRegexp\<close>
  returns normally and has done nothing with the handle but the \<^verbatim>\<open>Helper\<close> probe: no
  \<^verbatim>\<open>Error\<close>, \<^verbatim>\<open>Errorf\<close>, \<^verbatim>\<open>Fatal\<close> or \<^verbatim>\<open>Fatalf\<close> is added to what the
  handle has recorded.
\<close>

theorem passing_reports_nothing:
  "(isEqual H T got want = Inr True \<longrightarrow>
      Equal H T t got want msgAndArgs = Inr (markHelper t))
   \<and> (isEqual H T got want = Inr False \<longrightarrow>
      NotEqual H T t got want msgAndArgs = Inr (markHelper t))
   \<and> (isNil v \<longrightarrow> Nil_assert H t v msgAndArgs = Inr (markHelper t))
   \<and> (\<not> isNil v \<longrightarrow> NotNil H t v msgAndArgs = Inr (markHelper t))
   \<and> (ErrorIs_holds H err expected \<longrightarrow>
      ErrorIs H t err expected msgAndArgs = Inr (markHelper t))
   \<and> (err \<noteq> None \<and> errorsAs H err target = Inr True \<longrightarrow>
      ErrorAs H t err target msgAndArgs = Inr (markHelper t))
   \<and> (regexpMatchString H pattern s = Inr True \<longrightarrow>
      MatchesRegexp H t s pattern msgAndArgs = Inr (markHelper t))
   \<and> filter isReport (calls (markHelper t)) = filter isReport (calls t)"
proof -
  have "ErrorIs_holds H err expected \<Longrightarrow>
      ErrorIs H t err expected msgAndArgs = Inr (markHelper t)"
    by (auto simp: ErrorIs_holds_def ErrorIs_def split: if_splits option.splits sum.splits)
  then show ?thesis
    by (auto simp: Equal_def NotEqual_def Nil_assert_def NotNil_def ErrorAs_def MatchesRegexp_def
        Let_def reports_markHelper [unfolded reports_def])
qed

theorem passing_reports_nothing_witness:
  "isEqual sampleHost TInt (intV 42) (intV 42) = Inr True
   \<and> callsOf (Equal sampleHost TInt freshT (intV 42) (intV 42) []) = [Helper]
   \<and> isEqual sampleHost TInt (intV 1) (intV 2) = Inr False
   \<and> callsOf (NotEqual sampleHost TInt freshT (intV 1) (intV 2) []) = [Helper]
   \<and> callsOf (Nil_assert sampleHost freshT None []) = [Helper]
   \<and> callsOf (NotNil sampleHost freshT (intV 1) []) = [Helper]
   \<and> ErrorIs_holds sampleHost (newError 1 ''the night is dark'') (str ''night is'')
   \<and> callsOf (ErrorIs sampleHost freshT (newError 1 ''the night is dark'') (str ''night is'') [])
       = [Helper]
   \<and> errorsAs sampleHost (Some (errTypeT, VString ''oops''))
        (Some (TPointer errTypeT, VPointer (Some (2, VString [])))) = Inr True
   \<and> callsOf (ErrorAs sampleHost freshT (Some (errTypeT, VString ''oops''))
                (Some (TPointer errTypeT, VPointer (Some (2, VString [])))) []) = [Helper]
   \<and> callsOf (MatchesRegexp sampleHost freshT ''abc'' ''bc'' []) = [Helper]
   \<and> filter isReport (calls (markHelper freshT)) = []"
proof -
  have holds: "ErrorIs_holds sampleHost (newError 1 ''the night is dark'') (str ''night is'')"
    by (simp add: ErrorIs_holds_def callError_def lookupError_def sampleHost_def
        sampleErrorMethod_def newError_def errorStringT_def errTypeT_def errorStringError_def)
  have as: "errorsAs sampleHost (Some (errTypeT, VString ''oops''))
        (Some (TPointer errTypeT, VPointer (Some (2, VString [])))) = Inr True"
    by (simp add: sampleHost_def sampleAs_def sampleErrorMethod_def errTypeT_def)
  have nil: "isNil None" "\<not> isNil (intV 1)"
    by (simp_all add: isNil_def)
  show ?thesis
    using holds as nil isEqual_sample_same_int isEqual_sample_ints regexp_sample(3)
      passing_reports_nothing [where H = sampleHost and T = TInt and got = "intV 42"
        and want = "intV 42" and t = freshT and msgAndArgs = "[]" and v = None
        and err = "newError 1 ''the night is dark''" and expected = "str ''night is''"
        and target = None and pattern = "''bc''" and s = "''abc''"]
      passing_reports_nothing [where H = sampleHost and T = TInt and got = "intV 1"
        and want = "intV 2" and t = freshT and msgAndArgs = "[]" and v = "intV 1"
        and err = "Some (errTypeT, VString ''oops'')" and expected = None
        and target = "Some (TPointer errTypeT, VPointer (Some (2, VString [])))"
        and pattern = "''bc''" and s = "''abc''"]
    by (simp add: markHelper_def invoke_def freshT_def)
qed

end
